theory Spec2Isabelle
  imports Complex_Main "HOL-Library.List_Lexorder" "HOL-Library.Product_Lexorder"
begin

section \<open>Python strings\<close>

text \<open>
  A Python \<open>str\<close> is a sequence of Unicode code points, and \<open>sorted\<close> and \<open>==\<close> compare
  strings code point by code point.  A string is therefore a list of code points, ordered
  lexicographically; \<open>str\<close> embeds an ASCII literal.  The bucket labels of \<open>app_f.py\<close> contain
  the en dash U+2013.
\<close>

type_synonym codepoint = nat
type_synonym pystr = "codepoint list"

definition str :: "string \<Rightarrow> pystr" where
  "str s = map of_char s"

definition en_dash :: codepoint where
  "en_dash = 0x2013"

definition ranged :: "string \<Rightarrow> string \<Rightarrow> pystr" where
  \<comment> \<open>a label such as \<open>5.0\<close>, en dash, \<open>5.1\<close>\<close>
  "ranged lo hi = str lo @ [en_dash] @ str hi"

subsection \<open>\<open>str.title\<close> and \<open>str.strip\<close>\<close>

text \<open>
  \<open>str.title\<close> walks over the string once: a character that follows a cased character is
  replaced by its lower-case mapping, any other character by its title-case mapping, and
  the flag for the next character is whether the \<^emph>\<open>original\<close> character is cased.  Both
  mappings may yield several code points, and the lower-case mapping may look at the
  characters around (capital sigma).  \<open>str.strip\<close> without argument removes leading and
  trailing white space.  The Unicode character database is not part of the repository, so
  the four tables are a parameter.
\<close>

record case_tables =
  is_cased :: "codepoint \<Rightarrow> bool"
  to_lower :: "pystr \<Rightarrow> codepoint \<Rightarrow> pystr \<Rightarrow> pystr"
  to_title :: "codepoint \<Rightarrow> pystr"
  is_space :: "codepoint \<Rightarrow> bool"

fun title_from :: "case_tables \<Rightarrow> bool \<Rightarrow> pystr \<Rightarrow> pystr \<Rightarrow> pystr" where
  "title_from T previous_is_cased preceding [] = []"
| "title_from T previous_is_cased preceding (c # cs) =
     (if previous_is_cased then to_lower T preceding c cs else to_title T c)
     @ title_from T (is_cased T c) (preceding @ [c]) cs"

definition py_title :: "case_tables \<Rightarrow> pystr \<Rightarrow> pystr" where
  "py_title T s = title_from T False [] s"

definition py_strip :: "case_tables \<Rightarrow> pystr \<Rightarrow> pystr" where
  "py_strip T s = rev (dropWhile (is_space T) (rev (dropWhile (is_space T) s)))"

definition normalize_region :: "case_tables \<Rightarrow> pystr \<Rightarrow> pystr" where
  \<comment> \<open>\<open>.str.title().str.strip()\<close>\<close>
  "normalize_region T r = py_strip T (py_title T r)"

text \<open>The ASCII part of the tables, as Python has it.\<close>

definition ascii_upper :: "codepoint \<Rightarrow> bool" where
  "ascii_upper c = (65 \<le> c \<and> c \<le> 90)"

definition ascii_lower :: "codepoint \<Rightarrow> bool" where
  "ascii_lower c = (97 \<le> c \<and> c \<le> 122)"

definition ascii_space :: "codepoint \<Rightarrow> bool" where
  "ascii_space c = (c \<in> {9, 10, 11, 12, 13, 28, 29, 30, 31, 32})"


text \<open>
  An excerpt of the Unicode tables: ASCII, and the two code points U+0130 (capital I with
  dot above: cased, lower-case mapping \<open>i\<close> followed by U+0307) and U+0307 (combining dot
  above: not cased).  Every other code point is left alone by the excerpt.
\<close>

definition unicode_excerpt :: case_tables where
  "unicode_excerpt =
     \<lparr> is_cased = (\<lambda>c. ascii_upper c \<or> ascii_lower c \<or> c = 0x130),
       to_lower = (\<lambda>preceding c following.
          if ascii_upper c then [c + 32] else if c = 0x130 then [0x69, 0x307] else [c]),
       to_title = (\<lambda>c. if ascii_lower c then [c - 32] else [c]),
       is_space = ascii_space \<rparr>"





section \<open>The table\<close>

text \<open>
  One row of \<open>earthquakes_merged_f.csv\<close>.  A finite float is modelled by its real value and
  a missing entry (\<open>NaN\<close>) by \<open>None\<close>; the comparisons of the script agree with those of
  the real values.  An infinite entry is not a value of the model: magnitudes, coordinates
  and depths are finite.
\<close>

record quake =
  year :: int
  magnitude :: "real option"
  latitude :: "real option"
  longitude :: "real option"
  depth :: "real option"
  stations_used :: "real option"
  region :: "pystr option"

type_synonym table = "quake list"

section \<open>The pandas operations the script uses\<close>

subsection \<open>\<open>pd.cut\<close> with explicit bin edges\<close>

text \<open>
  The edges are floats, the last one \<open>float("inf")\<close>.  pandas finds the bin of a value with
  \<open>bins.searchsorted(x, side)\<close>, \<open>side\<close> being \<open>left\<close> for right-closed bins and \<open>right\<close> for
  left-closed ones: on increasing edges this is the number of edges below the value
  (strictly below for \<open>left\<close>).  A value gets no category when it is missing, when the index
  is \<open>0\<close> or when it is \<open>len(bins)\<close>; otherwise its code is the index minus one, and the
  category is the label at the code.
\<close>

datatype edge = Fin real | PInf

fun edge_le :: "edge \<Rightarrow> real \<Rightarrow> bool" where
  "edge_le (Fin b) v = (b \<le> v)"
| "edge_le PInf v = False"

fun edge_lt :: "edge \<Rightarrow> real \<Rightarrow> bool" where
  "edge_lt (Fin b) v = (b < v)"
| "edge_lt PInf v = False"

definition edge_before :: "bool \<Rightarrow> edge \<Rightarrow> real \<Rightarrow> bool" where
  "edge_before side_right b v = (if side_right then edge_le b v else edge_lt b v)"

definition searchsorted :: "edge list \<Rightarrow> real \<Rightarrow> bool \<Rightarrow> nat" where
  "searchsorted a v side_right = length (filter (\<lambda>b. edge_before side_right b v) a)"

definition cut_codes :: "real option \<Rightarrow> edge list \<Rightarrow> bool \<Rightarrow> nat option" where
  "cut_codes x bins right =
     (case x of
        None \<Rightarrow> None
      | Some v \<Rightarrow>
          (let ids = searchsorted bins v (\<not> right)
           in if ids = length bins \<or> ids = 0 then None else Some (ids - 1)))"

definition cut :: "real option \<Rightarrow> edge list \<Rightarrow> 'l list \<Rightarrow> bool \<Rightarrow> 'l option" where
  "cut x bins labels right = map_option (\<lambda>code. labels ! code) (cut_codes x bins right)"

text \<open>The bins pandas accepts increase strictly.\<close>

fun edge_less :: "edge \<Rightarrow> edge \<Rightarrow> bool" where
  "edge_less (Fin a) (Fin b) = (a < b)"
| "edge_less (Fin a) PInf = True"
| "edge_less PInf b = False"

text \<open>Bucket \<open>k\<close> of a bin list holds \<open>v\<close>: \<open>[low, high)\<close>, or \<open>(low, high]\<close> when \<open>right\<close>.\<close>

definition in_bucket :: "edge list \<Rightarrow> bool \<Rightarrow> nat \<Rightarrow> real \<Rightarrow> bool" where
  "in_bucket bins right k v =
     (edge_before (\<not> right) (bins ! k) v \<and> \<not> edge_before (\<not> right) (bins ! Suc k) v)"

subsection \<open>Grouping, sorting, merging\<close>

definition group_keys :: "'k::linorder list \<Rightarrow> 'k list" where
  \<comment> \<open>the keys of a \<open>groupby\<close>, which come out sorted and once each\<close>
  "group_keys ks = sort (remdups ks)"

definition group_size :: "'k list \<Rightarrow> 'k \<Rightarrow> nat" where
  "group_size ks k = length (filter (\<lambda>k'. k' = k) ks)"

fun drop_duplicates :: "'k list \<Rightarrow> ('k \<times> 'a) list \<Rightarrow> ('k \<times> 'a) list" where
  \<comment> \<open>\<open>drop_duplicates\<close> on the key column keeps the first row of every key\<close>
  "drop_duplicates seen [] = []"
| "drop_duplicates seen ((k, a) # rows) =
     (if k \<in> set seen then drop_duplicates seen rows
      else (k, a) # drop_duplicates (k # seen) rows)"

definition merge_left :: "('k \<times> 'a) list \<Rightarrow> ('k \<times> 'b) list \<Rightarrow> ('k \<times> 'a \<times> 'b option) list" where
  \<comment> \<open>\<open>left.merge(right, on = key, how = "left")\<close>: the left rows in their order, each once
      per matching right row, or once with missing values when none matches\<close>
  "merge_left left right =
     concat (map (\<lambda>(k, a).
       (case filter (\<lambda>(k', b). k' = k) right of
          [] \<Rightarrow> [(k, a, None)]
        | ms \<Rightarrow> map (\<lambda>(k', b). (k, a, Some b)) ms)) left)"

definition nlargest :: "nat \<Rightarrow> real option list \<Rightarrow> real list" where
  \<comment> \<open>\<open>Series.nlargest(n)\<close>: missing values dropped, largest first, ties in row order\<close>
  "nlargest n s = take n (sort_key uminus (concat (map (\<lambda>x. case x of None \<Rightarrow> [] | Some v \<Rightarrow> [v]) s)))"

section \<open>The script \<open>app_f.py\<close>\<close>

subsection \<open>The summary per year behind the bar chart\<close>

definition year_region_keys :: "table \<Rightarrow> (int \<times> pystr) list" where
  \<comment> \<open>the grouping keys of the rows \<open>dropna(subset = ["region"])\<close> keeps\<close>
  "year_region_keys df =
     concat (map (\<lambda>r. case region r of None \<Rightarrow> [] | Some g \<Rightarrow> [(year r, g)]) df)"

definition region_counts :: "table \<Rightarrow> (int \<times> pystr \<times> nat) list" where
  \<comment> \<open>\<open>groupby(["year", "region"]).size().reset_index(name = "n")\<close>\<close>
  "region_counts df =
     map (\<lambda>(y, g). (y, g, group_size (year_region_keys df) (y, g)))
       (group_keys (year_region_keys df))"

definition top_region_of :: "table \<Rightarrow> (int \<times> pystr) list" where
  \<comment> \<open>sorted by year ascending and count descending (a stable sort), first row per year,
      columns \<open>year\<close> and \<open>region\<close>\<close>
  "top_region_of df =
     map (\<lambda>(y, g, n). (y, g))
       (drop_duplicates [] (sort_key (\<lambda>(y, g, n). (y, - int n)) (region_counts df)))"

definition top_mags_of :: "table \<Rightarrow> (int \<times> real option list) list" where
  \<comment> \<open>per year, \<open>(s.nlargest(3).to_list() + [None, None, None])[:3]\<close>\<close>
  "top_mags_of df =
     map (\<lambda>y. (y, take 3 (map Some (nlargest 3 (map magnitude (filter (\<lambda>r. year r = y) df)))
                           @ [None, None, None])))
       (group_keys (map year df))"

definition year_amounts :: "table \<Rightarrow> (int \<times> nat) list" where
  \<comment> \<open>\<open>groupby("year").size().reset_index(name = "amount").sort_values("year")\<close>\<close>
  "year_amounts df =
     sort_key fst (map (\<lambda>y. (y, group_size (map year df) y)) (group_keys (map year df)))"

record year_summary =
  ys_year :: int
  amount :: nat
  top_region :: "pystr option"
  m1 :: "real option"
  m2 :: "real option"
  m3 :: "real option"

definition mag_column :: "nat \<Rightarrow> real option list option \<Rightarrow> real option" where
  \<comment> \<open>column \<open>i\<close> of the merged magnitudes; the lists have three entries\<close>
  "mag_column i L = (case L of None \<Rightarrow> None | Some ms \<Rightarrow> ms ! i)"

definition per_year_df :: "table \<Rightarrow> year_summary list" where
  "per_year_df df =
     map (\<lambda>(y, (n, g), L).
            \<lparr> ys_year = y, amount = n, top_region = g,
              m1 = mag_column 0 L, m2 = mag_column 1 L, m3 = mag_column 2 L \<rparr>)
       (merge_left (merge_left (year_amounts df) (top_region_of df)) (top_mags_of df))"

subsection \<open>The selected year\<close>

text \<open>
  \<open>st.session_state\<close> holds \<open>barchart_version\<close>, absent in a new session.  The bar chart
  widget is created under the key \<open>year_bar_selection_<version>\<close>; the front end keeps the
  last selection of a widget under its key, and \<open>plotly_events\<close> returns it, or the empty
  list for a key with no selection.  A key is identified with its version number, and a
  selection with the list of the clicked \<open>x\<close> values.
\<close>

record session =
  barchart_version :: "nat option"
  widget :: "nat \<rightharpoonup> int list"

definition new_session :: session where
  "new_session = \<lparr> barchart_version = None, widget = Map.empty \<rparr>"

definition version_of :: "session \<Rightarrow> nat" where
  \<comment> \<open>lines 86-87: the counter, \<open>0\<close> when absent\<close>
  "version_of s = (case barchart_version s of None \<Rightarrow> 0 | Some v \<Rightarrow> v)"

definition script_state :: "bool \<Rightarrow> session \<Rightarrow> session" where
  \<comment> \<open>the session state after one execution; \<open>button\<close> is what \<open>st.button\<close> returns.  When
      it is pressed the counter is incremented and \<open>st.rerun()\<close> restarts the script, in
      which the button is not pressed\<close>
  "script_state button s =
     s\<lparr> barchart_version := Some (if button then version_of s + 1 else version_of s) \<rparr>"

definition selected :: "session \<Rightarrow> int list" where
  \<comment> \<open>what \<open>plotly_events\<close> returns under the current key\<close>
  "selected s = (case widget s (version_of s) of None \<Rightarrow> [] | Some xs \<Rightarrow> xs)"

definition selected_year :: "session \<Rightarrow> int option" where
  "selected_year s = (case selected s of [] \<Rightarrow> None | x # _ \<Rightarrow> Some x)"

datatype event = ClickBar int | ShowAllYears | OtherWidget

fun handle :: "event \<Rightarrow> session \<Rightarrow> session" where
  \<comment> \<open>a click on a bar stores the selection under the key of the widget on the page, and
      every interaction executes the script\<close>
  "handle (ClickBar y) s = script_state False (s\<lparr> widget := (widget s)(version_of s \<mapsto> [y]) \<rparr>)"
| "handle ShowAllYears s = script_state True s"
| "handle OtherWidget s = script_state False s"

inductive reachable :: "session \<Rightarrow> bool" where
  first_run: "reachable (script_state False new_session)"
| interaction: "reachable s \<Longrightarrow> reachable (handle e s)"

definition df_filtered :: "table \<Rightarrow> int option \<Rightarrow> table" where
  "df_filtered df sel = (case sel of None \<Rightarrow> df | Some y \<Rightarrow> filter (\<lambda>r. year r = y) df)"

subsection \<open>Magnitude categories of the map\<close>

definition mag_bins_dot :: "edge list" where
  "mag_bins_dot = [Fin 5.0, Fin 5.15, Fin 5.35, Fin 5.55, Fin 5.75, Fin 6.0, Fin 6.15,
                   Fin 6.35, Fin 6.55, Fin 6.75, Fin 7.0, Fin 7.5, PInf]"

definition mag_labels_dot :: "pystr list" where
  "mag_labels_dot = [ranged ''5.0'' ''5.1'', ranged ''5.2'' ''5.3'', ranged ''5.4'' ''5.5'',
                     ranged ''5.6'' ''5.7'', ranged ''5.8'' ''5.9'', ranged ''6.0'' ''6.1'',
                     ranged ''6.2'' ''6.3'', ranged ''6.4'' ''6.5'', str ''6.6-6.7'',
                     str ''6.8-6.9'', str ''7.0-7.5'', str ''7.5+'']"

definition magnitude_code :: "real option \<Rightarrow> nat option" where
  "magnitude_code m = cut_codes m mag_bins_dot False"

definition magnitude_category :: "real option \<Rightarrow> pystr option" where
  "magnitude_category m = cut m mag_bins_dot mag_labels_dot False"

definition with_magnitude_category :: "table \<Rightarrow> (quake \<times> pystr option) list" where
  "with_magnitude_category t = map (\<lambda>r. (r, magnitude_category (magnitude r))) t"

subsection \<open>The tectonic plate boundaries\<close>

text \<open>
  \<open>requests.get\<close> either raises (time-out after ten seconds, no connection) or returns a
  response with a status code and a body, which may or may not be JSON.  A parsed JSON
  document is a Python value; indexing and iterating it raise as Python does.
\<close>

datatype json =
    JNull | JBool bool | JNum real | JStr pystr | JArr "json list" | JObj "(pystr \<times> json) list"

datatype exn =
    Timeout | ConnectionError | HTTPError nat | JSONDecodeError
  | KeyError | TypeError | IndexError

datatype http_result = Raised exn | Response nat "json option"

definition load_tectonics :: "http_result \<Rightarrow> exn + json" where
  "load_tectonics r =
     (case r of
        Raised e \<Rightarrow> Inl e
      | Response status body \<Rightarrow>
          if 400 \<le> status \<and> status < 600 then Inl (HTTPError status)
          else (case body of None \<Rightarrow> Inl JSONDecodeError | Some j \<Rightarrow> Inr j))"

fun getitem :: "json \<Rightarrow> pystr \<Rightarrow> exn + json" where
  \<comment> \<open>\<open>value[key]\<close> with a string key\<close>
  "getitem (JObj kvs) key = (case map_of kvs key of None \<Rightarrow> Inl KeyError | Some v \<Rightarrow> Inr v)"
| "getitem j key = Inl TypeError"

fun getindex :: "json \<Rightarrow> nat \<Rightarrow> exn + json" where
  \<comment> \<open>\<open>value[0]\<close> and \<open>value[1]\<close>; the keys of a JSON object are strings\<close>
  "getindex (JArr xs) i = (if i < length xs then Inr (xs ! i) else Inl IndexError)"
| "getindex (JStr s) i = (if i < length s then Inr (JStr [s ! i]) else Inl IndexError)"
| "getindex (JObj kvs) i = Inl KeyError"
| "getindex j i = Inl TypeError"

fun iterate :: "json \<Rightarrow> exn + json list" where
  \<comment> \<open>\<open>for x in value\<close>\<close>
  "iterate (JArr xs) = Inr xs"
| "iterate (JObj kvs) = Inr (map (\<lambda>(k, v). JStr k) kvs)"
| "iterate (JStr s) = Inr (map (\<lambda>c. JStr [c]) s)"
| "iterate j = Inl TypeError"

definition raising :: "exn + 'a \<Rightarrow> ('a \<Rightarrow> exn + 'b) \<Rightarrow> exn + 'b" where
  \<comment> \<open>evaluate, and go on with the value unless an exception was raised\<close>
  "raising x f = (case x of Inl e \<Rightarrow> Inl e | Inr v \<Rightarrow> f v)"

fun comprehension :: "nat \<Rightarrow> json list \<Rightarrow> exn + json list" where
  \<comment> \<open>\<open>[coord[i] for coord in coords]\<close>\<close>
  "comprehension i [] = Inr []"
| "comprehension i (coord # coords) =
     raising (getindex coord i) (\<lambda>x.
     raising (comprehension i coords) (\<lambda>xs. Inr (x # xs)))"

record line_trace =
  lon :: "json list"
  lat :: "json list"

record figure =
  points :: "(quake \<times> pystr option) list"
  lines :: "line_trace list"

definition add_feature :: "figure \<Rightarrow> json \<Rightarrow> exn + figure" where
  \<comment> \<open>the body of the loop over the features\<close>
  "add_feature fig feature =
     raising (getitem feature (str ''geometry'')) (\<lambda>g.
     raising (getitem g (str ''coordinates'')) (\<lambda>coords.
     raising (getitem g (str ''type'')) (\<lambda>ty.
       if ty = JStr (str ''LineString'') then
         raising (iterate coords) (\<lambda>cs.
         raising (comprehension 0 cs) (\<lambda>lons.
         raising (comprehension 1 cs) (\<lambda>lats.
           Inr (fig\<lparr> lines := lines fig @ [\<lparr> lon = lons, lat = lats \<rparr>] \<rparr>))))
       else Inr fig)))"

fun add_features :: "figure \<Rightarrow> json list \<Rightarrow> exn option \<times> figure" where
  \<comment> \<open>the loop; \<open>add_trace\<close> changes the figure in place, so the traces added before an
      exception stay\<close>
  "add_features fig [] = (None, fig)"
| "add_features fig (feature # features) =
     (case add_feature fig feature of
        Inl e \<Rightarrow> (Some e, fig)
      | Inr fig' \<Rightarrow> add_features fig' features)"

definition features_of :: "http_result \<Rightarrow> exn + json list" where
  \<comment> \<open>\<open>load_tectonics(url)['features']\<close>, as the \<open>for\<close> statement iterates it\<close>
  "features_of r =
     raising (load_tectonics r) (\<lambda>tectonic_data.
     raising (getitem tectonic_data (str ''features'')) iterate)"

definition try_tectonics :: "figure \<Rightarrow> http_result \<Rightarrow> exn option \<times> figure" where
  \<comment> \<open>the body of the \<open>try\<close>: the exception it ends with, if any, and the figure\<close>
  "try_tectonics fig r =
     (case features_of r of
        Inl e \<Rightarrow> (Some e, fig)
      | Inr features \<Rightarrow> add_features fig features)"

record map_view =
  warning :: "exn option"
  plotly_chart :: figure

definition dot_map :: "table \<Rightarrow> figure" where
  "dot_map t = \<lparr> points = with_magnitude_category t, lines = [] \<rparr>"

definition epicenters :: "table \<Rightarrow> bool \<Rightarrow> http_result \<Rightarrow> map_view" where
  \<comment> \<open>lines 135-170: every exception of the \<open>try\<close> body is an \<open>Exception\<close>, so the handler
      warns and the chart is drawn after the \<open>if\<close>\<close>
  "epicenters t show_tectonics r =
     (if show_tectonics then
        (case try_tectonics (dot_map t) r of (e, fig) \<Rightarrow> \<lparr> warning = e, plotly_chart = fig \<rparr>)
      else \<lparr> warning = None, plotly_chart = dot_map t \<rparr>)"

subsection \<open>The choropleth\<close>

definition df_regions :: "case_tables \<Rightarrow> table \<Rightarrow> pystr list" where
  \<comment> \<open>the region column after \<open>dropna\<close> and \<open>.str.title().str.strip()\<close>\<close>
  "df_regions T t =
     concat (map (\<lambda>r. case region r of None \<Rightarrow> [] | Some g \<Rightarrow> [normalize_region T g]) t)"

definition count_bins_chor :: "edge list" where
  "count_bins_chor = [Fin (- 1), Fin 1, Fin 3, Fin 6, Fin 10, Fin 20, PInf]"

definition count_labels_chor :: "pystr list" where
  "count_labels_chor = [str ''1'', ranged ''2'' ''3'', ranged ''4'' ''6'', ranged ''7'' ''10'',
                        ranged ''11'' ''20'', str ''21+'']"

definition count_bin :: "int \<Rightarrow> pystr option" where
  "count_bin c = cut (Some (real_of_int c)) count_bins_chor count_labels_chor True"

definition by_region :: "case_tables \<Rightarrow> table \<Rightarrow> (pystr \<times> nat \<times> pystr option) list" where
  "by_region T t =
     map (\<lambda>g. let n = group_size (df_regions T t) g in (g, n, count_bin (int n)))
       (group_keys (df_regions T t))"

subsection \<open>The three strongest earthquakes\<close>

definition category_rank :: "quake \<Rightarrow> nat \<times> nat" where
  \<comment> \<open>the sort key of \<open>sort_values("magnitude_category")\<close>: the code, missing last\<close>
  "category_rank r =
     (case magnitude_code (magnitude r) of None \<Rightarrow> (1, 0) | Some code \<Rightarrow> (0, code))"

definition top3 :: "table \<Rightarrow> (quake \<times> pystr option) list" where
  "top3 t =
     with_magnitude_category
       (sort_key category_rank
         (take 3 (sort_key (\<lambda>r. - the (magnitude r))
           (filter (\<lambda>r. latitude r \<noteq> None \<and> longitude r \<noteq> None \<and> magnitude r \<noteq> None) t))))"

subsection \<open>The pie chart\<close>

definition regions :: "table \<Rightarrow> pystr list" where
  "regions t =
     str ''All'' # sort (remdups (concat (map (\<lambda>r. case region r of None \<Rightarrow> [] | Some g \<Rightarrow> [g]) t)))"

definition df_pie_filtered :: "table \<Rightarrow> pystr \<Rightarrow> table" where
  "df_pie_filtered t region_selected =
     (if region_selected = str ''All'' then t
      else filter (\<lambda>r. region r = Some region_selected) t)"

definition mag_bins_pie :: "edge list" where
  "mag_bins_pie = [Fin 5.0, Fin 5.15, Fin 5.35, Fin 5.55, Fin 5.75, Fin 6.0, Fin 6.15,
                   Fin 6.35, Fin 6.55, PInf]"

definition mag_labels_pie :: "pystr list" where
  "mag_labels_pie = [ranged ''5.0'' ''5.1'', ranged ''5.2'' ''5.3'', ranged ''5.4'' ''5.5'',
                     ranged ''5.6'' ''5.7'', ranged ''5.8'' ''5.9'', ranged ''6.0'' ''6.1'',
                     ranged ''6.2'' ''6.3'', ranged ''6.4'' ''6.5'', str ''6.6+'']"

definition mag_cluster :: "real option \<Rightarrow> pystr option" where
  "mag_cluster m = cut m mag_bins_pie mag_labels_pie False"

datatype pie_output = Warning pystr | PieChart "(pystr \<times> nat) list"

definition df_pie :: "table \<Rightarrow> (pystr \<times> nat) list" where
  \<comment> \<open>\<open>groupby("mag_cluster").size()\<close> over the categories, in their order\<close>
  "df_pie t =
     map (\<lambda>l. (l, length (filter (\<lambda>r. mag_cluster (magnitude r) = Some l) t))) mag_labels_pie"

definition pie_view :: "table \<Rightarrow> pie_output" where
  "pie_view t =
     (if t = [] then Warning (str ''No data for the selected year(s) and region.'')
      else PieChart (df_pie t))"

subsection \<open>The page\<close>

record page =
  main_barchart :: "year_summary list"
  epicenter_map :: map_view
  choropleth_map :: "(pystr \<times> nat \<times> pystr option) list"
  mini_map :: "(quake \<times> pystr option) list"
  region_options :: "pystr list"
  pie :: pie_output

definition render :: "case_tables \<Rightarrow> table \<Rightarrow> session \<Rightarrow> bool \<Rightarrow> http_result \<Rightarrow> pystr \<Rightarrow> page" where
  \<comment> \<open>one execution of the script on the table \<open>df\<close>, with the inputs of the widgets\<close>
  "render T df s show_tectonics r region_selected =
     (let filtered = df_filtered df (selected_year s)
      in \<lparr> main_barchart = per_year_df df,
           epicenter_map = epicenters filtered show_tectonics r,
           choropleth_map = by_region T filtered,
           mini_map = top3 filtered,
           region_options = regions filtered,
           pie = pie_view (df_pie_filtered filtered region_selected) \<rparr>)"

subsection \<open>A sample payload\<close>



subsection \<open>Sample tables\<close>

text \<open>
  The table of the scenario: three rows of 2015 with magnitude 6.2 in Greece and one row of
  2016 with magnitude 5.1 in Italy, whatever the other columns hold; and a row with only
  these three columns filled in.
\<close>

definition example_table :: "quake \<Rightarrow> quake \<Rightarrow> quake \<Rightarrow> quake \<Rightarrow> table" where
  "example_table a b c d =
     [a\<lparr> year := 2015, magnitude := Some 6.2, region := Some (str ''Greece'') \<rparr>,
      b\<lparr> year := 2015, magnitude := Some 6.2, region := Some (str ''Greece'') \<rparr>,
      c\<lparr> year := 2015, magnitude := Some 6.2, region := Some (str ''Greece'') \<rparr>,
      d\<lparr> year := 2016, magnitude := Some 5.1, region := Some (str ''Italy'') \<rparr>]"

definition sample_row :: "int \<Rightarrow> real \<Rightarrow> string \<Rightarrow> quake" where
  "sample_row y m g =
     \<lparr> year = y, magnitude = Some m, latitude = None, longitude = None, depth = None,
       stations_used = None, region = Some (str g) \<rparr>"

section \<open>Properties of \<open>pd.cut\<close>\<close>

lemma edge_before_antimono:
  "edge_less b c \<Longrightarrow> edge_before s c v \<Longrightarrow> edge_before s b v"
  by (cases b; cases c) (auto simp: edge_before_def split: if_splits)

lemma edge_before_mono:
  "v \<le> v' \<Longrightarrow> edge_before s b v \<Longrightarrow> edge_before s b v'"
  by (cases b) (auto simp: edge_before_def split: if_splits)

lemma searchsorted_mono:
  "v \<le> v' \<Longrightarrow> searchsorted a v s \<le> searchsorted a v' s"
proof (induction a)
  case Nil
  then show ?case by (simp add: searchsorted_def)
next
  case (Cons b a)
  then show ?case
    using edge_before_mono [of v v' s b] by (auto simp: searchsorted_def)
qed

lemma searchsorted_none:
  "\<forall>c \<in> set a. \<not> edge_before s c v \<Longrightarrow> searchsorted a v s = 0"
  by (simp add: searchsorted_def)

lemma searchsorted_index:
  "sorted_wrt edge_less a \<Longrightarrow> k < length a \<Longrightarrow>
     edge_before s (a ! k) v = (k < searchsorted a v s)"
proof (induction a arbitrary: k)
  case Nil
  then show ?case by simp
next
  case (Cons b a)
  show ?case
  proof (cases "edge_before s b v")
    case True
    then show ?thesis
      using Cons by (cases k) (auto simp: searchsorted_def)
  next
    case False
    then have none: "\<forall>c \<in> set (b # a). \<not> edge_before s c v"
      using Cons.prems(1) edge_before_antimono [of b _ s v] by auto
    then have "searchsorted (b # a) v s = 0"
      by (rule searchsorted_none)
    moreover have "\<not> edge_before s ((b # a) ! k) v"
      using none Cons.prems(2) nth_mem by blast
    ultimately show ?thesis by simp
  qed
qed

lemma in_bucket_code:
  assumes "sorted_wrt edge_less bins" and "cut_codes (Some v) bins right = Some i"
    and "Suc k < length bins"
  shows "in_bucket bins right k v = (k = i)"
proof -
  let ?ids = "searchsorted bins v (\<not> right)"
  from assms(2) have ids: "?ids \<noteq> 0" "i = ?ids - 1"
    by (auto simp: cut_codes_def Let_def split: if_splits)
  have "edge_before (\<not> right) (bins ! k) v = (k < ?ids)"
    using assms by (intro searchsorted_index) auto
  moreover have "edge_before (\<not> right) (bins ! Suc k) v = (Suc k < ?ids)"
    using assms by (intro searchsorted_index) auto
  ultimately show ?thesis
    using ids by (auto simp: in_bucket_def)
qed

lemma mag_bins_dot_sorted: "sorted_wrt edge_less mag_bins_dot"
  by (simp add: mag_bins_dot_def)

lemma length_mag_bins_dot: "length mag_bins_dot = 13"
  by (simp add: mag_bins_dot_def)

lemma mag_labels_dot_distinct: "distinct mag_labels_dot"
  by (simp add: mag_labels_dot_def ranged_def str_def en_dash_def)

lemma magnitude_ids_bounds:
  assumes "5 \<le> m"
  shows "1 \<le> searchsorted mag_bins_dot m True" and "searchsorted mag_bins_dot m True \<le> 12"
  using assms by (simp_all add: searchsorted_def mag_bins_dot_def edge_before_def)

lemma magnitude_code_Some:
  assumes "5 \<le> m"
  shows "magnitude_code (Some m) = Some (searchsorted mag_bins_dot m True - 1)"
  using magnitude_ids_bounds [OF assms]
  by (simp add: magnitude_code_def cut_codes_def length_mag_bins_dot)

section \<open>The magnitude categories of the map\<close>

text \<open>
  Claim C1.  Every magnitude \<open>m \<ge> 5.0\<close> gets a category of the map: its code \<open>i\<close> is below
  12, the category is the label at \<open>i\<close>, the twelve labels differ from each other, and
  among the twelve half-open buckets \<open>[low, high)\<close> (the last one without upper end) the
  one at \<open>i\<close> is the only one that holds \<open>m\<close>.  The code does not decrease when the
  magnitude grows.
\<close>

theorem magnitude_category_unique_monotone:
  assumes "5 \<le> m" and "m \<le> m'"
  shows "\<exists>i j. magnitude_code (Some m) = Some i \<and> magnitude_code (Some m') = Some j
           \<and> i \<le> j \<and> j < 12
           \<and> magnitude_category (Some m) = Some (mag_labels_dot ! i)
           \<and> (\<forall>k < 12. in_bucket mag_bins_dot False k m = (k = i))
           \<and> distinct mag_labels_dot \<and> length mag_labels_dot = 12"
proof -
  let ?i = "searchsorted mag_bins_dot m True - 1"
  let ?j = "searchsorted mag_bins_dot m' True - 1"
  have m': "5 \<le> m'" using assms by simp
  have i: "magnitude_code (Some m) = Some ?i"
    by (rule magnitude_code_Some [OF assms(1)])
  have j: "magnitude_code (Some m') = Some ?j"
    by (rule magnitude_code_Some [OF m'])
  have le: "?i \<le> ?j"
    using searchsorted_mono [OF assms(2), of mag_bins_dot True] by simp
  have bound: "?j < 12"
    using magnitude_ids_bounds [OF m'] by simp
  have label: "magnitude_category (Some m) = Some (mag_labels_dot ! ?i)"
    using i by (simp add: magnitude_category_def magnitude_code_def cut_def)
  have bucket: "\<forall>k < 12. in_bucket mag_bins_dot False k m = (k = ?i)"
    using in_bucket_code [OF mag_bins_dot_sorted, of m False ?i] i
    by (simp add: magnitude_code_def length_mag_bins_dot)
  have len: "length mag_labels_dot = 12"
    by (simp add: mag_labels_dot_def)
  show ?thesis
    using i j le bound label bucket mag_labels_dot_distinct len by blast
qed

theorem magnitude_category_unique_monotone_witness:
  "(5::real) \<le> 6.2 \<and> (6.2::real) \<le> 7.5
   \<and> (\<exists>i j. magnitude_code (Some 6.2) = Some i \<and> magnitude_code (Some 7.5) = Some j
           \<and> i \<le> j \<and> j < 12
           \<and> magnitude_category (Some 6.2) = Some (mag_labels_dot ! i)
           \<and> (\<forall>k < 12. in_bucket mag_bins_dot False k 6.2 = (k = i))
           \<and> distinct mag_labels_dot \<and> length mag_labels_dot = 12)"
proof -
  have a: "(5::real) \<le> 6.2" and b: "(6.2::real) \<le> 7.5" by simp_all
  show ?thesis
    using a b magnitude_category_unique_monotone [OF a b] by blast
qed

section \<open>The count bins of the choropleth\<close>

lemma count_bins_chor_sorted: "sorted_wrt edge_less count_bins_chor"
  by (simp add: count_bins_chor_def)

lemma length_count_bins_chor: "length count_bins_chor = 7"
  by (simp add: count_bins_chor_def)

lemma count_labels_chor_distinct: "distinct count_labels_chor"
  by (simp add: count_labels_chor_def ranged_def str_def en_dash_def)

lemma count_code_Some:
  assumes "0 \<le> c"
  shows "cut_codes (Some (real_of_int c)) count_bins_chor True
           = Some (searchsorted count_bins_chor (real_of_int c) False - 1)"
    and "searchsorted count_bins_chor (real_of_int c) False - 1 < 6"
  using assms
  by (simp_all add: cut_codes_def searchsorted_def count_bins_chor_def edge_before_def)

lemma count_bin_label:
  assumes "0 \<le> c"
  shows "count_bin c =
     Some (if c \<le> 1 then str ''1'' else if c \<le> 3 then ranged ''2'' ''3''
           else if c \<le> 6 then ranged ''4'' ''6'' else if c \<le> 10 then ranged ''7'' ''10''
           else if c \<le> 20 then ranged ''11'' ''20'' else str ''21+'')"
  using assms
  by (simp add: count_bin_def cut_def cut_codes_def searchsorted_def count_bins_chor_def
      count_labels_chor_def edge_before_def)

text \<open>
  Claim C2.  Every count \<open>c \<ge> 0\<close> gets one of the six labels: \<open>1\<close> up to 1, \<open>2-3\<close> up to 3,
  \<open>4-6\<close> up to 6, \<open>7-10\<close> up to 10, \<open>11-20\<close> up to 20 and \<open>21+\<close> above (the ranges written
  with an en dash).  The labels differ from each other, and among the six buckets
  \<open>(-1, 1]\<close>, \<open>(1, 3]\<close>, \<open>(3, 6]\<close>, \<open>(6, 10]\<close>, \<open>(10, 20]\<close>, \<open>(20, inf)\<close> exactly the one of
  the label holds \<open>c\<close>: no gap and no overlap.
\<close>

theorem count_bin_partition:
  assumes "0 \<le> c"
  shows "count_bin c =
           Some (if c \<le> 1 then str ''1'' else if c \<le> 3 then ranged ''2'' ''3''
                 else if c \<le> 6 then ranged ''4'' ''6'' else if c \<le> 10 then ranged ''7'' ''10''
                 else if c \<le> 20 then ranged ''11'' ''20'' else str ''21+'')
         \<and> (\<exists>i < 6. count_bin c = Some (count_labels_chor ! i)
               \<and> (\<forall>k < 6. in_bucket count_bins_chor True k (real_of_int c) = (k = i)))
         \<and> distinct count_labels_chor \<and> length count_labels_chor = 6"
proof -
  let ?i = "searchsorted count_bins_chor (real_of_int c) False - 1"
  have code: "cut_codes (Some (real_of_int c)) count_bins_chor True = Some ?i" and i: "?i < 6"
    by (rule count_code_Some [OF assms])+
  have label: "count_bin c = Some (count_labels_chor ! ?i)"
    using code by (simp add: count_bin_def cut_def)
  have bucket: "\<forall>k < 6. in_bucket count_bins_chor True k (real_of_int c) = (k = ?i)"
    using in_bucket_code [OF count_bins_chor_sorted code]
    by (simp add: length_count_bins_chor)
  have len: "length count_labels_chor = 6"
    by (simp add: count_labels_chor_def)
  show ?thesis
    using count_bin_label [OF assms] i label bucket count_labels_chor_distinct len by blast
qed

theorem count_bin_partition_witness:
  "(0::int) \<le> 7 \<and> count_bin 7 = Some (ranged ''7'' ''10'')
   \<and> (\<exists>i < 6. count_bin 7 = Some (count_labels_chor ! i)
         \<and> (\<forall>k < 6. in_bucket count_bins_chor True k (real_of_int 7) = (k = i)))"
proof -
  have a: "(0::int) \<le> 7" by simp
  note th = count_bin_partition [OF a]
  from th have label: "count_bin 7 = Some (ranged ''7'' ''10'')" by simp
  from th have bucket: "\<exists>i < 6. count_bin 7 = Some (count_labels_chor ! i)
         \<and> (\<forall>k < 6. in_bucket count_bins_chor True k (real_of_int 7) = (k = i))" by blast
  show ?thesis
    using a label bucket by blast
qed


section \<open>The summary per year\<close>

lemma ex_keys: "year_region_keys (example_table a b c d) =
   [(2015, str ''Greece''), (2015, str ''Greece''), (2015, str ''Greece''), (2016, str ''Italy'')]"
  by (simp add: year_region_keys_def example_table_def)

lemma ex_region_counts: "region_counts (example_table a b c d) =
   [(2015, str ''Greece'', 3), (2016, str ''Italy'', 1)]"
  by (simp add: region_counts_def ex_keys group_keys_def group_size_def str_def)

lemma ex_top_region: "top_region_of (example_table a b c d) =
   [(2015, str ''Greece''), (2016, str ''Italy'')]"
  by (simp add: top_region_of_def ex_region_counts)

lemma ex_top_mags: "top_mags_of (example_table a b c d) =
   [(2015, [Some 6.2, Some 6.2, Some 6.2]), (2016, [Some 5.1, None, None])]"
  by (simp add: top_mags_of_def example_table_def group_keys_def nlargest_def)

lemma ex_amounts: "year_amounts (example_table a b c d) = [(2015, 3), (2016, 1)]"
  by (simp add: year_amounts_def example_table_def group_keys_def group_size_def)

text \<open>
  Claim C3.  On the table with the rows (2015, 6.2, Greece) three times and
  (2016, 5.1, Italy) once, the summary per year is: 2015 with amount 3, top region Greece
  and 6.2 three times; then 2016 with amount 1, top region Italy, 5.1 and two missing
  magnitudes.
\<close>

theorem per_year_df_example:
  "per_year_df (example_table a b c d) =
     [\<lparr> ys_year = 2015, amount = 3, top_region = Some (str ''Greece''),
        m1 = Some 6.2, m2 = Some 6.2, m3 = Some 6.2 \<rparr>,
      \<lparr> ys_year = 2016, amount = 1, top_region = Some (str ''Italy''),
        m1 = Some 5.1, m2 = None, m3 = None \<rparr>]"
  by (simp add: per_year_df_def ex_amounts ex_top_region ex_top_mags merge_left_def mag_column_def)

lemma filter_key_le_one:
  "distinct (map fst r) \<Longrightarrow> length (filter (\<lambda>(k', b). k' = k) r) \<le> 1"
proof (induction r)
  case Nil
  then show ?case by simp
next
  case (Cons x r)
  obtain k' b where x: "x = (k', b)" by (cases x)
  show ?case
  proof (cases "k' = k")
    case True
    then have "k \<notin> fst ` set r" using Cons.prems x by auto
    then have "filter (\<lambda>(k', b). k' = k) r = []"
      by (force simp: filter_empty_conv)
    then show ?thesis using x True by simp
  next
    case False
    then show ?thesis using Cons x by simp
  qed
qed

lemma merge_left_keys:
  assumes "distinct (map fst r)"
  shows "map fst (merge_left l r) = map fst l"
proof (induction l)
  case Nil
  then show ?case by (simp add: merge_left_def)
next
  case (Cons x l)
  obtain k a where x: "x = (k, a)" by (cases x)
  let ?ms = "filter (\<lambda>(k', b). k' = k) r"
  have "length ?ms \<le> 1" by (rule filter_key_le_one [OF assms])
  then have one: "map fst (case ?ms of [] \<Rightarrow> [(k, a, None)]
                     | ms \<Rightarrow> map (\<lambda>(k', b). (k, a, Some b)) ms) = [k]"
    by (cases ?ms) (auto split: prod.splits)
  have "map fst (merge_left (x # l) r) =
          map fst (case ?ms of [] \<Rightarrow> [(k, a, None)] | ms \<Rightarrow> map (\<lambda>(k', b). (k, a, Some b)) ms)
          @ map fst (merge_left l r)"
    by (simp add: merge_left_def x)
  then show ?case using one Cons x by simp
qed

lemma drop_duplicates_keys:
  "distinct (map fst (drop_duplicates seen rows))
   \<and> set (map fst (drop_duplicates seen rows)) \<inter> set seen = {}"
proof (induction seen rows rule: drop_duplicates.induct)
  case (1 seen)
  then show ?case by simp
next
  case (2 seen k a rows)
  then show ?case by auto
qed

lemma top_region_of_distinct: "distinct (map fst (top_region_of df))"
proof -
  have "map fst (top_region_of df) =
          map fst (drop_duplicates [] (sort_key (\<lambda>(y, g, n). (y, - int n)) (region_counts df)))"
    by (simp add: top_region_of_def split_def comp_def)
  then show ?thesis using drop_duplicates_keys by metis
qed

lemma top_mags_of_distinct: "distinct (map fst (top_mags_of df))"
  by (simp add: top_mags_of_def group_keys_def comp_def)

lemma map_insort_key: "map f (insort_key f x xs) = insort (f x) (map f xs)"
  by (induction xs) simp_all

lemma map_sort_key: "map f (sort_key f xs) = sort (map f xs)"
  by (induction xs) (simp_all add: map_insort_key)

lemma year_amounts_keys: "map fst (year_amounts df) = sort (remdups (map year df))"
proof -
  have "map fst (year_amounts df) = sort (group_keys (map year df))"
    by (simp add: year_amounts_def map_sort_key comp_def)
  also have "\<dots> = sort (remdups (map year df))"
    by (simp add: group_keys_def sort_key_id_if_sorted)
  finally show ?thesis .
qed

lemma per_year_df_years: "map ys_year (per_year_df df) = sort (remdups (map year df))"
proof -
  have "map ys_year (per_year_df df) =
          map fst (merge_left (merge_left (year_amounts df) (top_region_of df)) (top_mags_of df))"
    by (simp add: per_year_df_def split_def comp_def)
  also have "\<dots> = map fst (merge_left (year_amounts df) (top_region_of df))"
    by (rule merge_left_keys [OF top_mags_of_distinct])
  also have "\<dots> = map fst (year_amounts df)"
    by (rule merge_left_keys [OF top_region_of_distinct])
  finally show ?thesis by (simp add: year_amounts_keys)
qed

text \<open>
  Claim C4.  For every table the years of the summary per year ascend strictly, no year
  occurs twice, and they are the years of the table.
\<close>

theorem per_year_df_strictly_ascending:
  "sorted_wrt (<) (map ys_year (per_year_df df))
   \<and> distinct (map ys_year (per_year_df df))
   \<and> set (map ys_year (per_year_df df)) = year ` set df"
proof -
  have "sorted (sort (remdups (map year df)))" and "distinct (sort (remdups (map year df)))"
    by simp_all
  then have "sorted_wrt (<) (sort (remdups (map year df)))"
    by (simp add: strict_sorted_iff)
  then show ?thesis
    by (simp add: per_year_df_years)
qed

section \<open>The selected year\<close>

lemma version_of_script_state:
  "version_of (script_state button s) = (if button then version_of s + 1 else version_of s)"
  by (simp add: script_state_def version_of_def)

lemma version_of_widget_update: "version_of (s\<lparr> widget := w \<rparr>) = version_of s"
  by (simp add: version_of_def)

lemma widget_script_state: "widget (script_state button s) = widget s"
  by (simp add: script_state_def)

lemma reachable_fresh:
  "reachable s \<Longrightarrow> version_of s < k \<Longrightarrow> widget s k = None"
proof (induction arbitrary: k rule: reachable.induct)
  case first_run
  then show ?case by (simp add: script_state_def new_session_def)
next
  case (interaction s e)
  then show ?case
    by (cases e) (auto simp: version_of_script_state widget_script_state version_of_widget_update)
qed

text \<open>
  Claim C5.  In every state the session can reach, a click on the bar of year \<open>Y\<close> filters
  the table to the rows of \<open>Y\<close>; pressing \<open>Show all years\<close> then increments the version, the
  widget under the new key has no selection, and the filtered table is the whole table
  again, as in a session in which no bar was ever clicked.
\<close>

theorem show_all_restores:
  assumes "reachable s"
  shows "df_filtered df (selected_year (handle (ClickBar Y) s)) = filter (\<lambda>r. year r = Y) df
       \<and> version_of (handle ShowAllYears (handle (ClickBar Y) s)) = version_of (handle (ClickBar Y) s) + 1
       \<and> selected (handle ShowAllYears (handle (ClickBar Y) s)) = []
       \<and> df_filtered df (selected_year (handle ShowAllYears (handle (ClickBar Y) s))) = df
       \<and> df_filtered df (selected_year (handle ShowAllYears (handle (ClickBar Y) s)))
           = df_filtered df (selected_year (script_state False new_session))"
proof -
  let ?s1 = "handle (ClickBar Y) s"
  let ?s2 = "handle ShowAllYears ?s1"
  have r1: "reachable ?s1" using assms by (rule reachable.interaction)
  have sel1: "selected_year ?s1 = Some Y"
    by (simp add: selected_year_def selected_def version_of_script_state widget_script_state
        version_of_widget_update)
  have v2: "version_of ?s2 = version_of ?s1 + 1"
    by (simp add: version_of_script_state)
  have "widget ?s1 (version_of ?s1 + 1) = None"
    using reachable_fresh [OF r1] by simp
  then have sel2: "selected ?s2 = []"
    using v2 by (simp add: selected_def widget_script_state)
  then have none2: "selected_year ?s2 = None"
    by (simp add: selected_year_def)
  have none0: "selected_year (script_state False new_session) = None"
    by (simp add: selected_year_def selected_def script_state_def new_session_def)
  show ?thesis
    using sel1 v2 sel2 none2 none0 by (simp add: df_filtered_def)
qed

theorem show_all_restores_witness:
  "reachable (script_state False new_session)
   \<and> df_filtered [sample_row 2015 6.2 ''Greece'', sample_row 2016 5.1 ''Italy'']
        (selected_year (handle (ClickBar 2015) (script_state False new_session)))
       = [sample_row 2015 6.2 ''Greece'']
   \<and> df_filtered [sample_row 2015 6.2 ''Greece'', sample_row 2016 5.1 ''Italy'']
        (selected_year (handle ShowAllYears (handle (ClickBar 2015) (script_state False new_session))))
       = [sample_row 2015 6.2 ''Greece'', sample_row 2016 5.1 ''Italy'']"
proof -
  have r: "reachable (script_state False new_session)" by (rule reachable.first_run)
  note th = show_all_restores [OF r, of "[sample_row 2015 6.2 ''Greece'', sample_row 2016 5.1 ''Italy'']" 2015]
  from th have a: "df_filtered [sample_row 2015 6.2 ''Greece'', sample_row 2016 5.1 ''Italy'']
        (selected_year (handle (ClickBar 2015) (script_state False new_session)))
       = [sample_row 2015 6.2 ''Greece'']"
    by (simp add: sample_row_def)
  from th have b: "df_filtered [sample_row 2015 6.2 ''Greece'', sample_row 2016 5.1 ''Italy'']
        (selected_year (handle ShowAllYears (handle (ClickBar 2015) (script_state False new_session))))
       = [sample_row 2015 6.2 ''Greece'', sample_row 2016 5.1 ''Italy'']"
    by blast
  show ?thesis using r a b by blast
qed


section \<open>The pie chart\<close>

lemma pie_render:
  "pie (render T df s show_tectonics r g)
     = pie_view (df_pie_filtered (df_filtered df (selected_year s)) g)"
  by (simp add: render_def Let_def)

text \<open>
  Claim C6.  When the rows left by the year filter and the region filter are none, the pie
  view is the warning that there is no data for the selection; otherwise it is a pie chart
  of these rows.
\<close>

theorem pie_no_data_iff_empty:
  "(df_pie_filtered (df_filtered df (selected_year s)) g = [] \<longrightarrow>
      pie (render T df s show_tectonics r g)
        = Warning (str ''No data for the selected year(s) and region.''))
   \<and> (df_pie_filtered (df_filtered df (selected_year s)) g \<noteq> [] \<longrightarrow>
      pie (render T df s show_tectonics r g)
        = PieChart (df_pie (df_pie_filtered (df_filtered df (selected_year s)) g)))"
  by (simp add: pie_render pie_view_def)

theorem pie_no_data_iff_empty_witness:
  "pie (render unicode_excerpt [sample_row 2015 6.2 ''Greece''] new_session False
          (Raised Timeout) (str ''Italy''))
     = Warning (str ''No data for the selected year(s) and region.'')
   \<and> pie (render unicode_excerpt [sample_row 2015 6.2 ''Greece''] new_session False
          (Raised Timeout) (str ''Greece''))
     = PieChart (df_pie [sample_row 2015 6.2 ''Greece''])"
proof -
  let ?df = "[sample_row 2015 6.2 ''Greece'']"
  have sel: "df_filtered ?df (selected_year new_session) = ?df"
    by (simp add: df_filtered_def selected_year_def selected_def new_session_def)
  have empty: "df_pie_filtered (df_filtered ?df (selected_year new_session)) (str ''Italy'') = []"
    unfolding sel by (simp add: df_pie_filtered_def sample_row_def str_def)
  have rows: "df_pie_filtered (df_filtered ?df (selected_year new_session)) (str ''Greece'') = ?df"
    unfolding sel by (simp add: df_pie_filtered_def sample_row_def str_def)
  have a: "pie (render unicode_excerpt ?df new_session False (Raised Timeout) (str ''Italy''))
             = Warning (str ''No data for the selected year(s) and region.'')"
    using pie_no_data_iff_empty [of ?df new_session "str ''Italy''" unicode_excerpt False
        "Raised Timeout"] empty by blast
  have b: "pie (render unicode_excerpt ?df new_session False (Raised Timeout) (str ''Greece''))
             = PieChart (df_pie ?df)"
    using pie_no_data_iff_empty [of ?df new_session "str ''Greece''" unicode_excerpt False
        "Raised Timeout"] rows by simp
  show ?thesis using a b by blast
qed

section \<open>The tectonic plate boundaries\<close>

lemma add_feature_points:
  "add_feature fig feature = Inr fig' \<Longrightarrow> points fig' = points fig"
  by (auto simp: add_feature_def raising_def split: sum.splits if_splits)

lemma add_features_points: "points (snd (add_features fig features)) = points fig"
proof (induction features arbitrary: fig)
  case Nil
  then show ?case by simp
next
  case (Cons feature features)
  then show ?case
    by (cases "add_feature fig feature") (simp_all add: add_feature_points)
qed

lemma try_tectonics_points: "points (snd (try_tectonics fig r)) = points fig"
  by (cases "features_of r") (simp_all add: try_tectonics_def add_features_points)

lemma epicenters_points:
  "points (plotly_chart (epicenters t show_tectonics r)) = with_magnitude_category t"
proof (cases show_tectonics)
  case True
  obtain e fig where tr: "try_tectonics (dot_map t) r = (e, fig)"
    by (cases "try_tectonics (dot_map t) r")
  then have "points fig = points (dot_map t)"
    using try_tectonics_points [of "dot_map t" r] by simp
  then show ?thesis using True tr by (simp add: epicenters_def dot_map_def)
next
  case False
  then show ?thesis by (simp add: epicenters_def dot_map_def)
qed





section \<open>The aggregates and the filtered table\<close>

lemma sort_key_set_subset: "set (take n (sort_key f xs)) \<subseteq> set xs"
  using set_take_subset [of n "sort_key f xs"] by simp

lemma top3_rows: "fst ` set (top3 t) \<subseteq> set t"
proof -
  let ?present = "filter (\<lambda>r. latitude r \<noteq> None \<and> longitude r \<noteq> None \<and> magnitude r \<noteq> None) t"
  have "fst ` set (top3 t) = set (take 3 (sort_key (\<lambda>r. - the (magnitude r)) ?present))"
    by (simp add: top3_def with_magnitude_category_def image_image)
  also have "\<dots> \<subseteq> set ?present" by (rule sort_key_set_subset)
  also have "\<dots> \<subseteq> set t" by simp
  finally show ?thesis .
qed

text \<open>
  Claim C9.  The filtered table is the whole table when no year is selected and the rows
  of the selected year otherwise.  The points of the map, the choropleth, the three
  strongest earthquakes, the options of the region dropdown and the pie chart are computed
  from the filtered table; the bar chart is computed from the whole table, whatever is
  selected.
\<close>

theorem aggregates_use_filtered_subset:
  "df_filtered df None = df
   \<and> df_filtered df (Some y) = filter (\<lambda>r. year r = y) df
   \<and> points (plotly_chart (epicenter_map (render T df s show_tectonics r g)))
       = with_magnitude_category (df_filtered df (selected_year s))
   \<and> choropleth_map (render T df s show_tectonics r g)
       = by_region T (df_filtered df (selected_year s))
   \<and> mini_map (render T df s show_tectonics r g) = top3 (df_filtered df (selected_year s))
   \<and> fst ` set (mini_map (render T df s show_tectonics r g)) \<subseteq> set (df_filtered df (selected_year s))
   \<and> region_options (render T df s show_tectonics r g) = regions (df_filtered df (selected_year s))
   \<and> pie (render T df s show_tectonics r g)
       = pie_view (df_pie_filtered (df_filtered df (selected_year s)) g)
   \<and> main_barchart (render T df s show_tectonics r g) = per_year_df df
   \<and> main_barchart (render T df s show_tectonics r g)
       = main_barchart (render T df s' show_tectonics r g)"
  using top3_rows [of "df_filtered df (selected_year s)"]
  by (simp add: render_def Let_def df_filtered_def epicenters_points)


section \<open>The region dropdown\<close>

lemma raw_regions_set:
  "set (concat (map (\<lambda>r. case region r of None \<Rightarrow> [] | Some g \<Rightarrow> [g]) t))
     = {g. \<exists>row \<in> set t. region row = Some g}"
  by (induction t) (auto split: option.splits)

lemma region_options_raw:
  "set (tl (regions t)) = {g. \<exists>row \<in> set t. region row = Some g}"
proof -
  have "set (tl (regions t))
          = set (concat (map (\<lambda>r. case region r of None \<Rightarrow> [] | Some g \<Rightarrow> [g]) t))"
    by (simp add: regions_def del: set_concat)
  then show ?thesis by (simp only: raw_regions_set)
qed

text \<open>
  Claim C10.  The options of the dropdown after \<open>All\<close> are the region strings of the
  filtered table as they stand, and the pie view compares the same strings.  So for every
  option after \<open>All\<close> some row has this region, the rows of the pie view are not empty, and
  the pie view is a chart and not the warning.
\<close>

theorem dropdown_region_has_rows:
  assumes "g \<in> set (tl (regions t))"
  shows "(\<exists>row \<in> set t. region row = Some g)
       \<and> df_pie_filtered t g \<noteq> []
       \<and> pie_view (df_pie_filtered t g) = PieChart (df_pie (df_pie_filtered t g))
       \<and> set (tl (regions t)) = {g. \<exists>row \<in> set t. region row = Some g}
       \<and> hd (regions t) = str ''All''"
proof -
  from assms obtain row where row: "row \<in> set t" "region row = Some g"
    by (auto simp: region_options_raw)
  have nonempty: "df_pie_filtered t g \<noteq> []"
  proof (cases "g = str ''All''")
    case True
    then show ?thesis using row by (auto simp: df_pie_filtered_def)
  next
    case False
    then show ?thesis using row by (auto simp: df_pie_filtered_def filter_empty_conv)
  qed
  then have "pie_view (df_pie_filtered t g) = PieChart (df_pie (df_pie_filtered t g))"
    by (simp add: pie_view_def)
  then show ?thesis
    using row nonempty region_options_raw [of t] by (auto simp: regions_def)
qed


theorem dropdown_region_has_rows_witness:
  "str ''  greece '' \<in> set (tl (regions [sample_row 2015 6.2 ''  greece '', sample_row 2016 5.1 ''Italy'']))
   \<and> df_pie_filtered [sample_row 2015 6.2 ''  greece '', sample_row 2016 5.1 ''Italy''] (str ''  greece '')
       = [sample_row 2015 6.2 ''  greece '']
   \<and> map fst (by_region unicode_excerpt [sample_row 2015 6.2 ''  greece '', sample_row 2016 5.1 ''Italy''])
       = [str ''Greece'', str ''Italy'']
   \<and> df_pie_filtered [sample_row 2015 6.2 ''  greece '', sample_row 2016 5.1 ''Italy''] (str ''Greece'') = []"
proof -
  let ?t = "[sample_row 2015 6.2 ''  greece '', sample_row 2016 5.1 ''Italy'']"
  have opt: "str ''  greece '' \<in> set (tl (regions ?t))"
    by (simp add: regions_def sample_row_def str_def)
  have flt: "df_pie_filtered ?t (str ''  greece '') = [sample_row 2015 6.2 ''  greece '']"
    using dropdown_region_has_rows [OF opt]
    by (simp add: df_pie_filtered_def sample_row_def str_def)
  have norm: "map fst (by_region unicode_excerpt ?t) = [str ''Greece'', str ''Italy'']"
    by (simp add: by_region_def Let_def df_regions_def group_keys_def normalize_region_def py_title_def py_strip_def
        unicode_excerpt_def sample_row_def str_def ascii_upper_def ascii_lower_def ascii_space_def)
  have none: "df_pie_filtered ?t (str ''Greece'') = []"
    by (simp add: df_pie_filtered_def sample_row_def str_def)
  show ?thesis using opt flt norm none by blast
qed

section \<open>Normalizing region names\<close>






















end
